theory Spec2Isabelle
  imports Main "HOL-Library.Word"
begin

section \<open>JavaScript strings\<close>

text \<open>
  A JavaScript string is a sequence of UTF-16 code units, and \<open>.length\<close>, \<open>===\<close> and a
  regular expression without the \<open>u\<close> flag all work on code units. A string of the
  program is therefore a list of 16-bit words; \<open>str\<close> embeds an ASCII literal of the source.
\<close>

type_synonym js_string = "16 word list"

definition str :: "string \<Rightarrow> js_string" where
  "str s = map of_char s"

section \<open>The part of zod the schemas use\<close>

text \<open>
  A schema is modelled by its parse on a value that already has the schema's static type
  (the forms deliver strings for text inputs and a boolean for the checkbox), so the type
  checks of \<open>z.string()\<close> and \<open>z.boolean()\<close> pass and no parse is aborted. What is left of
  a parse is the list of issues it reports, in order; the parse succeeds iff the list is
  empty. An issue has its code, its path and the message given in the source (\<open>None\<close>
  where the source gives none and zod's error map supplies the text).
\<close>

datatype zod_code = too_small | too_big | invalid_string | custom

datatype zod_issue = Issue (issue_code: zod_code) (issue_path: "string list") (issue_message: "js_string option")

type_synonym 'a zod = "'a \<Rightarrow> zod_issue list"

definition success_zod :: "'a zod \<Rightarrow> 'a \<Rightarrow> bool" where
  "success_zod schema x = (schema x = [])"

definition z_string :: "js_string zod" where
  "z_string s = []"

definition z_boolean :: "bool zod" where
  "z_boolean b = []"

text \<open>The checks of a string schema all run; each failing one reports its issue.\<close>

definition z_min :: "nat \<Rightarrow> js_string option \<Rightarrow> js_string zod" where
  "z_min n msg s = (if length s < n then [Issue too_small [] msg] else [])"

definition z_max :: "nat \<Rightarrow> js_string option \<Rightarrow> js_string zod" where
  "z_max n msg s = (if length s > n then [Issue too_big [] msg] else [])"

definition z_length :: "nat \<Rightarrow> js_string option \<Rightarrow> js_string zod" where
  "z_length n msg s =
     (if length s > n then [Issue too_big [] msg]
      else if length s < n then [Issue too_small [] msg]
      else [])"

text \<open>
  \<open>.regex(re, msg)\<close> reports an issue when \<open>re.test\<close> is false. Every expression of the
  source is a single character class, which matches iff some code unit of the string is in
  the class. \<open>.email(msg)\<close> tests zod's own expression, which is not part of this
  repository and is a parameter here.
\<close>

definition z_regex :: "(16 word \<Rightarrow> bool) \<Rightarrow> js_string option \<Rightarrow> js_string zod" where
  "z_regex cls msg s = (if \<exists>c\<in>set s. cls c then [] else [Issue invalid_string [] msg])"

definition z_email :: "(js_string \<Rightarrow> bool) \<Rightarrow> js_string option \<Rightarrow> js_string zod" where
  "z_email emailRegex msg s = (if emailRegex s then [] else [Issue invalid_string [] msg])"

text \<open>\<open>a.pipe(b)\<close> runs \<open>b\<close> only on a value that \<open>a\<close> accepted without an issue.\<close>

definition pipe :: "'a zod \<Rightarrow> 'a zod \<Rightarrow> 'a zod" where
  "pipe a b x = (if a x = [] then b x else a x)"

text \<open>A property of an object schema reports its issues under the property's key.\<close>

definition at_key :: "string \<Rightarrow> zod_issue list \<Rightarrow> zod_issue list" where
  "at_key k is = map (\<lambda>i. Issue (issue_code i) (k # issue_path i) (issue_message i)) is"

text \<open>
  \<open>schema.refine(check, {message, path})\<close> parses with \<open>schema\<close> and then, unless that parse
  was aborted (it never is on typed input), runs \<open>check\<close> and adds a \<open>custom\<close> issue at
  \<open>path\<close> when it is false.
\<close>

definition refine :: "('a \<Rightarrow> bool) \<Rightarrow> js_string \<Rightarrow> string list \<Rightarrow> 'a zod \<Rightarrow> 'a zod" where
  "refine check msg p schema x =
     schema x @ (if check x then [] else [Issue custom p (Some msg)])"

definition errors_at :: "string list \<Rightarrow> zod_issue list \<Rightarrow> zod_issue list" where
  "errors_at p is = filter (\<lambda>i. issue_path i = p) is"

section \<open>The schemas\<close>

definition verificationSchema :: "js_string zod" where
  "verificationSchema code =
     at_key ''code'' (z_length 6 (Some (str ''Code must be 6 characters'')) code)"

definition lowercase :: "16 word \<Rightarrow> bool" where
  "lowercase c = (of_char CHR ''a'' \<le> c \<and> c \<le> of_char CHR ''z'')"

definition uppercase :: "16 word \<Rightarrow> bool" where
  "uppercase c = (of_char CHR ''A'' \<le> c \<and> c \<le> of_char CHR ''Z'')"

definition digit :: "16 word \<Rightarrow> bool" where
  "digit c = (of_char CHR ''0'' \<le> c \<and> c \<le> of_char CHR ''9'')"

definition special_characters :: js_string where
  \<open>special_characters = str ''!@#$%^&*(),.?":{}|<>-_[]''\<close>

definition special :: "16 word \<Rightarrow> bool" where
  "special c = (c \<in> set special_characters)"

definition charLength :: "js_string zod" where
  "charLength s = z_min 8 None s @ z_max 12 None s"

definition oneLowercase :: "js_string zod" where
  "oneLowercase = z_regex lowercase (Some (str ''Must contain lowercase letter''))"

definition oneUppercase :: "js_string zod" where
  "oneUppercase = z_regex uppercase (Some (str ''Must contain uppercase letter''))"

definition oneNumber :: "js_string zod" where
  "oneNumber = z_regex digit (Some (str ''Must contain number''))"

definition oneSpecial :: "js_string zod" where
  "oneSpecial = z_regex special (Some (str ''Must contain special character''))"

definition passwordSchema :: "js_string zod" where
  "passwordSchema =
     pipe (pipe (pipe (pipe (pipe z_string charLength) oneLowercase) oneUppercase) oneNumber)
       oneSpecial"

record FormSchema =
  username :: js_string
  password :: js_string
  confirmPassword :: js_string
  tos :: bool

record FormSchemaWithEmail = FormSchema +
  email :: js_string

text \<open>The schema of \<open>sign-up.tsx\<close>: no email property, and no message for the username.\<close>

definition formSchema :: "FormSchema zod" where
  "formSchema =
     refine (\<lambda>data. tos data) (str ''You must accept the terms of service'') [''tos'']
       (refine (\<lambda>data. password data = confirmPassword data) (str ''Passwords don't match'')
          [''confirmPassword'']
          (\<lambda>data.
             at_key ''username'' (z_min 4 None (username data))
             @ at_key ''password'' (passwordSchema (password data))
             @ at_key ''confirmPassword'' (z_string (confirmPassword data))
             @ at_key ''tos'' (z_boolean (tos data))))"

definition formSchemaWithEmail :: "(js_string \<Rightarrow> bool) \<Rightarrow> FormSchemaWithEmail zod" where
  "formSchemaWithEmail emailRegex =
     refine (\<lambda>data. tos data) (str ''You must accept the terms of service'') [''tos'']
       (refine (\<lambda>data. password data = confirmPassword data) (str ''Passwords don't match'')
          [''confirmPassword'']
          (\<lambda>data.
             at_key ''email''
               (z_email emailRegex (Some (str ''Please enter a valid email address''))
                  (email data))
             @ at_key ''username''
                 (z_min 4 (Some (str ''Username must be at least 4 characters''))
                    (username data))
             @ at_key ''password'' (passwordSchema (password data))
             @ at_key ''confirmPassword'' (z_string (confirmPassword data))
             @ at_key ''tos'' (z_boolean (tos data))))"

section \<open>The generated default password\<close>

text \<open>
  \<open>crypto.getRandomValues(new Uint32Array(12))\<close> fills twelve 32-bit slots; the source of
  randomness is the parameter \<open>rng\<close>, which gives the value of each slot. The index
  \<open>x % characters.length\<close> is always inside \<open>characters\<close>.
\<close>

definition characters :: js_string where
  "characters = str ''0123456789ABCDEFGHIJKLMNOPQRSTUVWXYZabcdefghijklmnopqrstuvwxyz~!@-#$''"

definition getRandomValues :: "(nat \<Rightarrow> 32 word) \<Rightarrow> nat \<Rightarrow> 32 word list" where
  "getRandomValues rng n = map rng [0..<n]"

definition generateRandomPassword :: "(nat \<Rightarrow> 32 word) \<Rightarrow> js_string" where
  "generateRandomPassword rng =
     concat (map (\<lambda>x. [characters ! (unat x mod length characters)]) (getRandomValues rng 12))"

definition useSignupFormWithEmail :: "(nat \<Rightarrow> 32 word) \<Rightarrow> FormSchemaWithEmail" where
  "useSignupFormWithEmail rng =
     (let pwd = generateRandomPassword rng
      in \<lparr>username = str ''testingUser'', password = pwd, confirmPassword = pwd, tos = False,
          email = str ''test@example.com''\<rparr>)"

section \<open>The authentication collaborator\<close>

text \<open>
  The Clerk SDK is outside the repository. What the code reads of it is modelled as data:
  the resource a call resolves to (\<open>status\<close> and \<open>createdSessionId\<close>, \<open>None\<close> for
  \<open>null\<close>), and the value a rejected call throws, of which the code reads
  \<open>err.errors[0].longMessage\<close> and \<open>err.message\<close> (\<open>None\<close> for a property that is absent,
  also when the thrown value is not an object). A call either rejects (\<open>Inl\<close>) or resolves
  (\<open>Inr\<close>); the outcome of each call is given by the value of \<open>useSignUp()\<close>, so that
  the code can be run against any behaviour of the collaborator. \<open>signUp\<close> is \<open>None\<close>
  while it is \<open>undefined\<close>; \<open>setActive\<close> is only called after a call on \<open>signUp\<close> has
  resolved, where Clerk provides it.
\<close>

record SignUpResource =
  status :: "js_string option"
  createdSessionId :: "js_string option"

datatype ClerkAPIError = ClerkAPIError (longMessage: "js_string option")

record thrown =
  errors :: "ClerkAPIError list option"
  message :: "js_string option"

record SignUp =
  create :: "js_string \<Rightarrow> js_string \<Rightarrow> js_string \<Rightarrow> thrown + SignUpResource"
  prepareEmailAddressVerification :: "js_string \<Rightarrow> thrown + SignUpResource"
  attemptEmailAddressVerification :: "js_string \<Rightarrow> thrown + SignUpResource"

record useSignUp =
  isLoaded :: bool
  signUp :: "SignUp option"
  setActive :: "js_string option \<Rightarrow> thrown + unit"

text \<open>
  The calls made to the collaborator are logged in the order in which they are made;
  \<open>Call_create\<close> has the arguments \<open>emailAddress\<close>, \<open>password\<close>, \<open>username\<close>. Output to the
  console is not modelled.
\<close>

datatype clerk_call =
    Call_create js_string js_string js_string
  | Call_prepareEmailAddressVerification js_string
  | Call_attemptEmailAddressVerification js_string
  | Call_setActive "js_string option"

datatype SIGNUP_STATE = LOADING | ERROR | VERIFY_EMAIL | READY | DONE

record component =
  calls :: "clerk_call list"
  state :: SIGNUP_STATE

definition call :: "clerk_call \<Rightarrow> 'a component_scheme \<Rightarrow> 'a component_scheme" where
  "call c w = w\<lparr>calls := calls w @ [c]\<rparr>"

text \<open>
  \<open>a || b\<close> on values that are a string or absent: \<open>a\<close> when it is truthy (present and
  not the empty string), \<open>b\<close> otherwise.
\<close>

definition truthy :: "js_string option \<Rightarrow> bool" where
  "truthy v = (case v of None \<Rightarrow> False | Some s \<Rightarrow> s \<noteq> [])"

definition or_js :: "js_string option \<Rightarrow> js_string option \<Rightarrow> js_string option" where
  "or_js a b = (if truthy a then a else b)"

definition first_longMessage :: "thrown \<Rightarrow> js_string option" where
  "first_longMessage err =
     (case errors err of None \<Rightarrow> None | Some [] \<Rightarrow> None | Some (e # _) \<Rightarrow> longMessage e)"

section \<open>The signup with email: \<open>useClerkSignupWithEmail\<close> and \<open>SignupEmailUsernamePassword\<close>\<close>

text \<open>
  The state of one mounted component: its own \<open>state\<close>, \<open>error\<close> (here \<open>error_text\<close>,
  \<open>None\<close> for \<open>null\<close>) and \<open>showPassword\<close>, and the two flags of the hook.
\<close>

record SignupEmailUsernamePassword = component +
  error_text :: "js_string option"
  showPassword :: bool
  isCreating :: bool
  isVerifying :: bool

text \<open>The object a hook operation returns; an absent property is \<open>None\<close>.\<close>

record result =
  success :: bool
  requiresVerification :: "bool option"
  error :: "js_string option"

definition failure :: "js_string option \<Rightarrow> result" where
  "failure e = \<lparr>success = False, requiresVerification = None, error = e\<rparr>"

text \<open>The \<open>try\<close> block of \<open>signup\<close>: \<open>Inl\<close> is the value thrown into the \<open>catch\<close>.\<close>

definition signup_try ::
  "useSignUp \<Rightarrow> SignUp \<Rightarrow> SignupEmailUsernamePassword \<Rightarrow> FormSchemaWithEmail
     \<Rightarrow> SignupEmailUsernamePassword \<times> (thrown + result)" where
  "signup_try c su w data =
     (let w1 = call (Call_create (email data) (password data) (username data)) w
      in case create su (email data) (password data) (username data) of
           Inl err \<Rightarrow> (w1, Inl err)
         | Inr res \<Rightarrow>
             if status res = Some (str ''missing_requirements'') then
               (let w2 = call (Call_prepareEmailAddressVerification (str ''email_code'')) w1
                in case prepareEmailAddressVerification su (str ''email_code'') of
                     Inl err \<Rightarrow> (w2, Inl err)
                   | Inr _ \<Rightarrow>
                       (w2, Inr \<lparr>success = True, requiresVerification = Some True,
                                 error = None\<rparr>))
             else if status res = Some (str ''complete'') then
               (let w2 = call (Call_setActive (createdSessionId res)) w1
                in case setActive c (createdSessionId res) of
                     Inl err \<Rightarrow> (w2, Inl err)
                   | Inr _ \<Rightarrow>
                       (w2, Inr \<lparr>success = True, requiresVerification = Some False,
                                 error = None\<rparr>))
             else (w1, Inr (failure (Some (str ''Unexpected signup status'')))))"

text \<open>
  \<open>signup\<close> in two parts, divided where it is first suspended. \<open>signup_enter\<close> is what
  runs before the \<open>try\<close>: the guard, which returns at once (\<open>Inl\<close>), and
  \<open>setIsCreating(true)\<close>. \<open>signup_leave\<close> is the \<open>try\<close> with its \<open>catch\<close> and \<open>finally\<close>.
\<close>

definition signup_enter ::
  "useSignUp \<Rightarrow> SignupEmailUsernamePassword
     \<Rightarrow> (SignupEmailUsernamePassword \<times> result) + (SignUp \<times> SignupEmailUsernamePassword)" where
  "signup_enter c w =
     (case signUp c of
        None \<Rightarrow> Inl (w, failure (Some (str ''Clerk not loaded'')))
      | Some su \<Rightarrow>
          if \<not> isLoaded c then Inl (w, failure (Some (str ''Clerk not loaded'')))
          else Inr (su, w\<lparr>isCreating := True\<rparr>))"

definition signup_leave ::
  "useSignUp \<Rightarrow> SignUp \<Rightarrow> SignupEmailUsernamePassword \<Rightarrow> FormSchemaWithEmail
     \<Rightarrow> SignupEmailUsernamePassword \<times> result" where
  "signup_leave c su w data =
     (let (w', r) = signup_try c su w data;
          res = (case r of
                   Inr v \<Rightarrow> v
                 | Inl err \<Rightarrow>
                     failure (or_js (or_js (first_longMessage err) (message err))
                                (Some (str ''Signup failed''))))
      in (w'\<lparr>isCreating := False\<rparr>, res))"

definition useClerkSignupWithEmail_signup ::
  "useSignUp \<Rightarrow> SignupEmailUsernamePassword \<Rightarrow> FormSchemaWithEmail
     \<Rightarrow> SignupEmailUsernamePassword \<times> result" where
  "useClerkSignupWithEmail_signup c w data =
     (case signup_enter c w of
        Inl returned_at_once \<Rightarrow> returned_at_once
      | Inr (su, w1) \<Rightarrow> signup_leave c su w1 data)"

definition verify_try ::
  "useSignUp \<Rightarrow> SignUp \<Rightarrow> SignupEmailUsernamePassword \<Rightarrow> js_string
     \<Rightarrow> SignupEmailUsernamePassword \<times> (thrown + result)" where
  "verify_try c su w code =
     (let w1 = call (Call_attemptEmailAddressVerification code) w
      in case attemptEmailAddressVerification su code of
           Inl err \<Rightarrow> (w1, Inl err)
         | Inr res \<Rightarrow>
             if status res = Some (str ''complete'') then
               (let w2 = call (Call_setActive (createdSessionId res)) w1
                in case setActive c (createdSessionId res) of
                     Inl err \<Rightarrow> (w2, Inl err)
                   | Inr _ \<Rightarrow>
                       (w2, Inr \<lparr>success = True, requiresVerification = None, error = None\<rparr>))
             else (w1, Inr (failure (Some (str ''Verification failed'')))))"

text \<open>\<open>verify\<close> in the same two parts.\<close>

definition verify_enter ::
  "useSignUp \<Rightarrow> SignupEmailUsernamePassword
     \<Rightarrow> (SignupEmailUsernamePassword \<times> result) + (SignUp \<times> SignupEmailUsernamePassword)" where
  "verify_enter c w =
     (case signUp c of
        None \<Rightarrow> Inl (w, failure (Some (str ''Clerk not loaded'')))
      | Some su \<Rightarrow>
          if \<not> isLoaded c then Inl (w, failure (Some (str ''Clerk not loaded'')))
          else Inr (su, w\<lparr>isVerifying := True\<rparr>))"

definition verify_leave ::
  "useSignUp \<Rightarrow> SignUp \<Rightarrow> SignupEmailUsernamePassword \<Rightarrow> js_string
     \<Rightarrow> SignupEmailUsernamePassword \<times> result" where
  "verify_leave c su w code =
     (let (w', r) = verify_try c su w code;
          res = (case r of
                   Inr v \<Rightarrow> v
                 | Inl err \<Rightarrow>
                     failure (or_js (or_js (first_longMessage err) (message err))
                                (Some (str ''Verification failed''))))
      in (w'\<lparr>isVerifying := False\<rparr>, res))"

definition useClerkSignupWithEmail_verify ::
  "useSignUp \<Rightarrow> SignupEmailUsernamePassword \<Rightarrow> js_string
     \<Rightarrow> SignupEmailUsernamePassword \<times> result" where
  "useClerkSignupWithEmail_verify c w code =
     (case verify_enter c w of
        Inl returned_at_once \<Rightarrow> returned_at_once
      | Inr (su, w1) \<Rightarrow> verify_leave c su w1 code)"

text \<open>
  The handlers of the component: \<open>clear_error\<close> is \<open>setError(null)\<close>, their first
  statement; \<open>onSignup_result\<close> and \<open>onVerification_result\<close> are what they do with the
  result they awaited.
\<close>

definition clear_error :: "SignupEmailUsernamePassword \<Rightarrow> SignupEmailUsernamePassword" where
  "clear_error w = w\<lparr>error_text := None\<rparr>"

definition onSignup_result ::
  "SignupEmailUsernamePassword \<times> result \<Rightarrow> SignupEmailUsernamePassword" where
  "onSignup_result awaited =
     (let (w', res) = awaited
      in if success res then
           (if requiresVerification res = Some True then w'\<lparr>state := VERIFY_EMAIL\<rparr>
            else w'\<lparr>state := DONE\<rparr>)
         else w'\<lparr>state := ERROR, error_text := error res\<rparr>)"

definition SignupEmailUsernamePassword_onSignup ::
  "useSignUp \<Rightarrow> SignupEmailUsernamePassword \<Rightarrow> FormSchemaWithEmail
     \<Rightarrow> SignupEmailUsernamePassword" where
  "SignupEmailUsernamePassword_onSignup c w data =
     onSignup_result (useClerkSignupWithEmail_signup c (clear_error w) data)"

definition onVerification_result ::
  "SignupEmailUsernamePassword \<times> result \<Rightarrow> SignupEmailUsernamePassword" where
  "onVerification_result awaited =
     (let (w', res) = awaited
      in if success res then w'\<lparr>state := DONE\<rparr>
         else w'\<lparr>state := ERROR, error_text := error res\<rparr>)"

definition SignupEmailUsernamePassword_onVerification ::
  "useSignUp \<Rightarrow> SignupEmailUsernamePassword \<Rightarrow> js_string \<Rightarrow> SignupEmailUsernamePassword" where
  "SignupEmailUsernamePassword_onVerification c w code =
     onVerification_result (useClerkSignupWithEmail_verify c (clear_error w) code)"

text \<open>
  What the component renders, as far as the claims need it: which view, whether the submit
  control of a form has the \<open>disabled\<close> attribute, and what the error view is given to
  show.
\<close>

datatype 'e view =
    LoadingClerk
  | SignupForm (submit_disabled: bool)
  | VerifyForm (submit_disabled: bool)
  | Welcome
  | ErrorView 'e
  | Loading


definition SignupEmailUsernamePassword_mount :: SignupEmailUsernamePassword where
  "SignupEmailUsernamePassword_mount =
     \<lparr>calls = [], state = READY, error_text = None, showPassword = False,
      isCreating = False, isVerifying = False\<rparr>"


section \<open>The signup of \<open>sign-up.tsx\<close>: \<open>useClerkSignup\<close> and \<open>Signup\<close>\<close>

text \<open>
  The hook keeps a \<open>state\<close> of its own (here \<open>hook_state\<close>), which \<open>Signup\<close> does not
  read. Its operations return the status of a resource (\<open>null\<close> is \<open>Returned None\<close>) or
  nothing at all (\<open>Undefined\<close>); \<open>err\<close> holds what \<open>setErr\<close> was given.
\<close>

datatype hook_status = idle | loading | error_status | success_status | verify_status

datatype returned = Undefined | Returned "js_string option"

record Signup = component +
  err :: returned
  hook_state :: hook_status

text \<open>
  The guard tests \<open>isLoaded\<close> only: on an absent \<open>signUp\<close> the property access inside the
  \<open>try\<close> throws, which the \<open>catch\<close> handles like a rejected call.
\<close>

definition useClerkSignup_signup ::
  "useSignUp \<Rightarrow> Signup \<Rightarrow> FormSchema \<Rightarrow> js_string \<Rightarrow> Signup \<times> returned" where
  "useClerkSignup_signup c w data email_arg =
     (if \<not> isLoaded c then (w, Undefined)
      else
        (let w0 = w\<lparr>hook_state := loading\<rparr>
         in case signUp c of
              None \<Rightarrow> (w0\<lparr>hook_state := error_status\<rparr>, Undefined)
            | Some su \<Rightarrow>
                (let w1 = call (Call_create email_arg (password data) (username data)) w0
                 in case create su email_arg (password data) (username data) of
                      Inl _ \<Rightarrow> (w1\<lparr>hook_state := error_status\<rparr>, Undefined)
                    | Inr _ \<Rightarrow>
                        (let w2 = call (Call_prepareEmailAddressVerification
                                          (str ''email_code'')) w1
                         in case prepareEmailAddressVerification su (str ''email_code'') of
                              Inl _ \<Rightarrow> (w2\<lparr>hook_state := error_status\<rparr>, Undefined)
                            | Inr res \<Rightarrow>
                                (w2\<lparr>hook_state := verify_status\<rparr>, Returned (status res))))))"

definition useClerkSignup_verify ::
  "useSignUp \<Rightarrow> Signup \<Rightarrow> js_string \<Rightarrow> Signup \<times> returned" where
  "useClerkSignup_verify c w code =
     (if \<not> isLoaded c then (w, Undefined)
      else
        (case signUp c of
           None \<Rightarrow> (w\<lparr>hook_state := error_status\<rparr>, Undefined)
         | Some su \<Rightarrow>
             (let w1 = call (Call_attemptEmailAddressVerification code) w
              in case attemptEmailAddressVerification su code of
                   Inl _ \<Rightarrow> (w1\<lparr>hook_state := error_status\<rparr>, Undefined)
                 | Inr res \<Rightarrow> (w1, Returned (status res)))))"

definition Signup_email :: js_string where
  "Signup_email = str ''tomek.buszewski+clerk_test@gmail.com''"

definition Signup_onSignup :: "useSignUp \<Rightarrow> Signup \<Rightarrow> FormSchema \<Rightarrow> Signup" where
  "Signup_onSignup c w data =
     (let (w', res) = useClerkSignup_signup c w data Signup_email
      in if res = Returned (Some (str ''complete'')) then w'\<lparr>state := VERIFY_EMAIL\<rparr>
         else w'\<lparr>state := ERROR, err := res\<rparr>)"

definition Signup_onVerification :: "useSignUp \<Rightarrow> Signup \<Rightarrow> js_string \<Rightarrow> Signup" where
  "Signup_onVerification c w code =
     (let (w', res) = useClerkSignup_verify c w code
      in if res = Returned (Some (str ''complete'')) then w'\<lparr>state := DONE\<rparr>
         else w'\<lparr>state := ERROR\<rparr>)"

definition Signup_render :: "Signup \<Rightarrow> returned view" where
  "Signup_render w =
     (if state w = READY then SignupForm False
      else if state w = VERIFY_EMAIL then VerifyForm False
      else if state w = DONE then Welcome
      else if state w = ERROR then ErrorView (err w)
      else Loading)"

definition Signup_mount :: Signup where
  "Signup_mount = \<lparr>calls = [], state = READY, err = Undefined, hook_state = idle\<rparr>"

section \<open>The signup with email as a transition system\<close>








section \<open>Collaborators and inputs for concrete runs\<close>

definition resource :: "string \<Rightarrow> SignUpResource" where
  "resource st = \<lparr>status = Some (str st), createdSessionId = Some (str ''sess_1'')\<rparr>"

definition rejection :: thrown where
  "rejection =
     \<lparr>errors = Some [ClerkAPIError (Some (str ''That email address is taken.''))],
      message = Some (str ''Unprocessable Entity'')\<rparr>"

text \<open>
  \<open>clerk_with created prepared attempted activated\<close> is a loaded collaborator that answers
  \<open>create\<close>, \<open>prepareEmailAddressVerification\<close>, \<open>attemptEmailAddressVerification\<close> and
  \<open>setActive\<close> with the given outcomes, whatever the arguments.
\<close>

definition signUp_with ::
  "thrown + SignUpResource \<Rightarrow> thrown + SignUpResource \<Rightarrow> thrown + SignUpResource
     \<Rightarrow> SignUp" where
  "signUp_with created prepared attempted =
     \<lparr>create = (\<lambda>_ _ _. created),
      prepareEmailAddressVerification = (\<lambda>_. prepared),
      attemptEmailAddressVerification = (\<lambda>_. attempted)\<rparr>"

definition clerk_with ::
  "thrown + SignUpResource \<Rightarrow> thrown + SignUpResource \<Rightarrow> thrown + SignUpResource
     \<Rightarrow> thrown + unit \<Rightarrow> useSignUp" where
  "clerk_with created prepared attempted activated =
     \<lparr>isLoaded = True, signUp = Some (signUp_with created prepared attempted),
      setActive = (\<lambda>_. activated)\<rparr>"

definition clerk_not_loaded :: useSignUp where
  "clerk_not_loaded = \<lparr>isLoaded = False, signUp = None, setActive = (\<lambda>_. Inr ())\<rparr>"

definition sample_input :: FormSchemaWithEmail where
  "sample_input =
     \<lparr>username = str ''testingUser'', password = str ''Abcdef1!x'',
      confirmPassword = str ''Abcdef1!x'', tos = True, email = str ''test@example.com''\<rparr>"

definition sample_FormSchema :: FormSchema where
  "sample_FormSchema =
     \<lparr>username = str ''testingUser'', password = str ''Abcdef1!x'',
      confirmPassword = str ''Abcdef1!x'', tos = True\<rparr>"

text \<open>\<open>slots xs\<close> is a source of randomness whose first slots hold \<open>xs\<close> and the others 0.\<close>

definition slots :: "32 word list \<Rightarrow> nat \<Rightarrow> 32 word" where
  "slots xs i = (if i < length xs then xs ! i else 0)"

text \<open>A stand-in for zod's email expression: the string contains \<open>@\<close>.\<close>

definition contains_at :: "js_string \<Rightarrow> bool" where
  "contains_at s = (of_char CHR ''@'' \<in> set s)"


definition slow_clerk :: useSignUp where
  "slow_clerk =
     clerk_with (Inr (resource ''missing_requirements''))
       (Inr (resource ''missing_requirements'')) (Inr (resource ''complete'')) (Inr ())"




section \<open>Notions of the specification\<close>

text \<open>
  The message of the specification's fallback chain: the long message of the structured
  field error if present, otherwise the exception's own message, otherwise the fixed
  string; a message is present when it is there and not empty.
\<close>

definition fallback_chain :: "thrown \<Rightarrow> js_string \<Rightarrow> js_string" where
  "fallback_chain x fixed =
     (case first_longMessage x of
        Some (c # cs) \<Rightarrow> c # cs
      | _ \<Rightarrow> (case message x of Some (c # cs) \<Rightarrow> c # cs | _ \<Rightarrow> fixed))"


section \<open>Properties of the schemas\<close>

lemma pipe_Nil: "pipe a b x = [] \<longleftrightarrow> a x = [] \<and> b x = []"
  by (simp add: pipe_def)

lemma z_regex_Nil: "z_regex cls msg s = [] \<longleftrightarrow> (\<exists>c\<in>set s. cls c)"
  by (simp add: z_regex_def)

lemma charLength_Nil: "charLength s = [] \<longleftrightarrow> 8 \<le> length s \<and> length s \<le> 12"
  by (auto simp: charLength_def z_min_def z_max_def)

lemma passwordSchema_Nil:
  "passwordSchema s = [] \<longleftrightarrow>
     8 \<le> length s \<and> length s \<le> 12 \<and> (\<exists>c\<in>set s. lowercase c) \<and> (\<exists>c\<in>set s. uppercase c)
     \<and> (\<exists>c\<in>set s. digit c) \<and> (\<exists>c\<in>set s. special c)"
  unfolding passwordSchema_def pipe_Nil z_regex_Nil charLength_Nil
    oneLowercase_def oneUppercase_def oneNumber_def oneSpecial_def z_string_def
  by blast

lemmas class_defs =
  lowercase_def uppercase_def digit_def special_def special_characters_def str_def

lemma errors_at_append: "errors_at p (xs @ ys) = errors_at p xs @ errors_at p ys"
  by (simp add: errors_at_def)

lemma errors_at_other_key: "k \<noteq> k' \<Longrightarrow> errors_at [k'] (at_key k is) = []"
  by (induction "is") (simp_all add: errors_at_def at_key_def)

text \<open>
  C6. The verification code is accepted iff it has exactly 6 code units, whatever they
  are: \<open>123456\<close> is accepted, \<open>12345\<close> and \<open>1234567\<close> are not.
\<close>

theorem verificationSchema_exactly_six_characters:
  "(success_zod verificationSchema code \<longleftrightarrow> length code = 6)
   \<and> success_zod verificationSchema (str ''123456'')
   \<and> \<not> success_zod verificationSchema (str ''12345'')
   \<and> \<not> success_zod verificationSchema (str ''1234567'')"
  by (auto simp: success_zod_def verificationSchema_def at_key_def z_length_def str_def)

theorem verificationSchema_exactly_six_characters_witness:
  "success_zod verificationSchema (str ''ab-D! '')
   \<and> \<not> success_zod verificationSchema (str ''ab-D!'')"
  using verificationSchema_exactly_six_characters [of "str ''ab-D! ''"]
    verificationSchema_exactly_six_characters [of "str ''ab-D!''"]
  by (simp add: str_def)

text \<open>
  C5. A password is accepted iff its length is between 8 and 12 and it has a lowercase
  letter, an uppercase letter, a digit and a character of the special set: with all of
  them it passes, and without any one of them (or outside the length bounds) it fails.
\<close>

theorem passwordSchema_length_and_classes:
  "success_zod passwordSchema s \<longleftrightarrow>
     8 \<le> length s \<and> length s \<le> 12 \<and> (\<exists>c\<in>set s. lowercase c) \<and> (\<exists>c\<in>set s. uppercase c)
     \<and> (\<exists>c\<in>set s. digit c) \<and> (\<exists>c\<in>set s. special c)"
  by (simp add: success_zod_def passwordSchema_Nil)

theorem passwordSchema_length_and_classes_witness:
  "success_zod passwordSchema (str ''Abcdef1!'')
   \<and> \<not> success_zod passwordSchema (str ''ABCDEF1!'')
   \<and> \<not> success_zod passwordSchema (str ''abcdef1!'')
   \<and> \<not> success_zod passwordSchema (str ''Abcdefg!'')
   \<and> \<not> success_zod passwordSchema (str ''Abcdef12'')
   \<and> \<not> success_zod passwordSchema (str ''Abcde1!'')
   \<and> \<not> success_zod passwordSchema (str ''Abcdefghij12!'')"
  using passwordSchema_length_and_classes [of "str ''Abcdef1!''"]
    passwordSchema_length_and_classes [of "str ''ABCDEF1!''"]
    passwordSchema_length_and_classes [of "str ''abcdef1!''"]
    passwordSchema_length_and_classes [of "str ''Abcdefg!''"]
    passwordSchema_length_and_classes [of "str ''Abcdef12''"]
    passwordSchema_length_and_classes [of "str ''Abcde1!''"]
    passwordSchema_length_and_classes [of "str ''Abcdefghij12!''"]
  by (simp add: class_defs)

text \<open>
  C4. Both form schemas report an error at \<open>confirmPassword\<close> iff \<open>confirmPassword\<close>
  differs from \<open>password\<close>, for every input, whatever the other rules say about it.
\<close>

theorem confirmPassword_error_iff_differs:
  "(errors_at [''confirmPassword''] (formSchemaWithEmail emailRegex data) \<noteq> []
      \<longleftrightarrow> confirmPassword data \<noteq> password data)
   \<and> (errors_at [''confirmPassword''] (formSchema data') \<noteq> []
      \<longleftrightarrow> confirmPassword data' \<noteq> password data')"
  by (auto simp: formSchemaWithEmail_def formSchema_def refine_def errors_at_append
      errors_at_other_key z_string_def at_key_def errors_at_def)

theorem confirmPassword_error_iff_differs_witness:
  "errors_at [''confirmPassword'']
     (formSchemaWithEmail contains_at (sample_input\<lparr>confirmPassword := str ''Abcdef1!y''\<rparr>)) \<noteq> []
   \<and> errors_at [''confirmPassword''] (formSchemaWithEmail contains_at sample_input) = []
   \<and> errors_at [''confirmPassword'']
        (formSchema (sample_FormSchema\<lparr>password := str ''x'', confirmPassword := []\<rparr>))
      \<noteq> []
   \<and> errors_at [''confirmPassword''] (formSchema sample_FormSchema) = []"
  using confirmPassword_error_iff_differs
      [of contains_at "sample_input\<lparr>confirmPassword := str ''Abcdef1!y''\<rparr>" sample_FormSchema]
    confirmPassword_error_iff_differs
      [of contains_at sample_input
         "sample_FormSchema\<lparr>password := str ''x'', confirmPassword := []\<rparr>"]
  by (simp add: sample_input_def sample_FormSchema_def str_def)

section \<open>Properties of the generated password\<close>

lemma length_characters: "length characters = 68"
  by (simp add: characters_def str_def)

lemma distinct_characters: "distinct characters"
  by (simp add: characters_def str_def)

lemma length_generateRandomPassword: "length (generateRandomPassword rng) = 12"
  by (simp add: generateRandomPassword_def getRandomValues_def length_concat o_def
      sum_list_triv)

lemma set_generateRandomPassword: "set (generateRandomPassword rng) \<subseteq> set characters"
  by (auto simp: generateRandomPassword_def length_characters intro!: nth_mem)

lemma generateRandomPassword_digits:
  "generateRandomPassword (slots []) = str ''000000000000''"
  by (simp add: generateRandomPassword_def getRandomValues_def characters_def str_def
      upt_rec slots_def)

lemma generateRandomPassword_tilde:
  "generateRandomPassword (slots [36, 10, 0, 62]) = str ''aA0~00000000''"
  by (simp add: generateRandomPassword_def getRandomValues_def characters_def str_def
      upt_rec slots_def)

lemma digits_rejected: "\<not> success_zod passwordSchema (str ''000000000000'')"
  by (simp add: success_zod_def passwordSchema_Nil class_defs)

lemma tilde_rejected: "\<not> success_zod passwordSchema (str ''aA0~00000000'')"
  by (simp add: success_zod_def passwordSchema_Nil class_defs)

text \<open>
  C10. \<open>generateRandomPassword\<close> always returns 12 characters of its alphabet of 68, and
  some of its outputs fail the password schema: twelve digits, and a string whose only
  character outside letters and digits is \<open>~\<close>, which is not a special character of the
  schema. The hook installs the generated string as default \<open>password\<close> and
  \<open>confirmPassword\<close>, so these defaults can fail validation.
\<close>

theorem generateRandomPassword_may_fail_passwordSchema:
  "length (generateRandomPassword rng) = 12
   \<and> set (generateRandomPassword rng) \<subseteq> set characters
   \<and> length characters = 68 \<and> distinct characters
   \<and> generateRandomPassword (slots []) = str ''000000000000''
   \<and> \<not> success_zod passwordSchema (generateRandomPassword (slots []))
   \<and> generateRandomPassword (slots [36, 10, 0, 62]) = str ''aA0~00000000''
   \<and> \<not> success_zod passwordSchema (generateRandomPassword (slots [36, 10, 0, 62]))
   \<and> \<not> special (of_char CHR ''~'')
   \<and> password (useSignupFormWithEmail rng) = generateRandomPassword rng
   \<and> confirmPassword (useSignupFormWithEmail rng) = generateRandomPassword rng
   \<and> \<not> success_zod passwordSchema (password (useSignupFormWithEmail (slots [])))"
  using digits_rejected tilde_rejected
  by (simp add: length_generateRandomPassword set_generateRandomPassword length_characters
      distinct_characters generateRandomPassword_digits generateRandomPassword_tilde
      useSignupFormWithEmail_def Let_def special_def special_characters_def)
     (simp add: str_def)

theorem generateRandomPassword_may_fail_passwordSchema_witness:
  "length (generateRandomPassword (slots [66, 67, 10, 36, 1])) = 12
   \<and> set (generateRandomPassword (slots [66, 67, 10, 36, 1])) \<subseteq> set characters
   \<and> \<not> success_zod passwordSchema (password (useSignupFormWithEmail (slots [])))"
  using generateRandomPassword_may_fail_passwordSchema [of "slots [66, 67, 10, 36, 1]"]
  by simp

section \<open>Properties of the signup operations\<close>

lemma or_js_fallback_chain:
  "or_js (or_js (first_longMessage x) (message x)) (Some fixed)
     = Some (fallback_chain x fixed)"
  by (simp add: or_js_def truthy_def fallback_chain_def split: option.splits list.splits)

lemma complete_neq_missing: "str ''complete'' \<noteq> str ''missing_requirements''"
  by (simp add: str_def)

lemma fallback_chain_nonempty: "fixed \<noteq> [] \<Longrightarrow> fallback_chain x fixed \<noteq> []"
  by (simp add: fallback_chain_def split: option.splits list.splits)

lemma fixed_nonempty:
  "str ''Clerk not loaded'' \<noteq> []" "str ''Verification failed'' \<noteq> []"
  "str ''Signup failed'' \<noteq> []" "str ''Unexpected signup status'' \<noteq> []"
  by (simp_all add: str_def)

lemmas signup_defs =
  SignupEmailUsernamePassword_onSignup_def onSignup_result_def clear_error_def
  useClerkSignupWithEmail_signup_def signup_enter_def signup_leave_def signup_try_def
  call_def failure_def

lemmas verify_defs =
  SignupEmailUsernamePassword_onVerification_def onVerification_result_def clear_error_def
  useClerkSignupWithEmail_verify_def verify_enter_def verify_leave_def verify_try_def
  call_def failure_def

lemmas Signup_defs =
  Signup_onSignup_def Signup_onVerification_def useClerkSignup_signup_def
  useClerkSignup_verify_def call_def

lemmas run_defs =
  clerk_with_def signUp_with_def slow_clerk_def clerk_not_loaded_def resource_def rejection_def
  SignupEmailUsernamePassword_mount_def Signup_mount_def sample_input_def
  sample_FormSchema_def Signup_email_def

lemma signup_not_loaded:
  assumes "\<not> isLoaded c \<or> signUp c = None"
  shows "useClerkSignupWithEmail_signup c w data
           = (w, \<lparr>success = False, requiresVerification = None,
                  error = Some (str ''Clerk not loaded'')\<rparr>)"
  using assms
  by (auto simp: useClerkSignupWithEmail_signup_def signup_enter_def failure_def
      split: option.splits)

lemma verify_not_loaded:
  assumes "\<not> isLoaded c \<or> signUp c = None"
  shows "useClerkSignupWithEmail_verify c w code
           = (w, \<lparr>success = False, requiresVerification = None,
                  error = Some (str ''Clerk not loaded'')\<rparr>)"
  using assms
  by (auto simp: useClerkSignupWithEmail_verify_def verify_enter_def failure_def
      split: option.splits)

lemma onSignup_not_loaded:
  assumes "\<not> isLoaded c \<or> signUp c = None"
  shows "SignupEmailUsernamePassword_onSignup c w data
           = w\<lparr>state := ERROR, error_text := Some (str ''Clerk not loaded'')\<rparr>"
  by (simp add: SignupEmailUsernamePassword_onSignup_def onSignup_result_def clear_error_def
      signup_not_loaded [OF assms])

lemma onVerification_not_loaded:
  assumes "\<not> isLoaded c \<or> signUp c = None"
  shows "SignupEmailUsernamePassword_onVerification c w code
           = w\<lparr>state := ERROR, error_text := Some (str ''Clerk not loaded'')\<rparr>"
  by (simp add: SignupEmailUsernamePassword_onVerification_def onVerification_result_def
      clear_error_def verify_not_loaded [OF assms])

lemma onSignup_create_rejects:
  assumes "isLoaded c" and "signUp c = Some su"
    and "create su (email data) (password data) (username data) = Inl x"
  shows "SignupEmailUsernamePassword_onSignup c w data
           = w\<lparr>calls := calls w @ [Call_create (email data) (password data) (username data)],
                state := ERROR, error_text := Some (fallback_chain x (str ''Signup failed'')),
                isCreating := False\<rparr>"
  using assms by (simp add: signup_defs or_js_fallback_chain)

lemma onSignup_unexpected_status:
  assumes "isLoaded c" and "signUp c = Some su"
    and "create su (email data) (password data) (username data) = Inr res"
    and "status res \<noteq> Some (str ''complete'')"
    and "status res \<noteq> Some (str ''missing_requirements'')"
  shows "SignupEmailUsernamePassword_onSignup c w data
           = w\<lparr>calls := calls w @ [Call_create (email data) (password data) (username data)],
                state := ERROR, error_text := Some (str ''Unexpected signup status''),
                isCreating := False\<rparr>"
  using assms by (simp add: signup_defs)

lemma onSignup_prepare_rejects:
  assumes "isLoaded c" and "signUp c = Some su"
    and "create su (email data) (password data) (username data) = Inr res"
    and "status res = Some (str ''missing_requirements'')"
    and "prepareEmailAddressVerification su (str ''email_code'') = Inl x"
  shows "SignupEmailUsernamePassword_onSignup c w data
           = w\<lparr>calls := calls w @ [Call_create (email data) (password data) (username data),
                                   Call_prepareEmailAddressVerification (str ''email_code'')],
                state := ERROR, error_text := Some (fallback_chain x (str ''Signup failed'')),
                isCreating := False\<rparr>"
  using assms by (simp add: signup_defs or_js_fallback_chain)

lemma onSignup_prepare_resolves:
  assumes "isLoaded c" and "signUp c = Some su"
    and "create su (email data) (password data) (username data) = Inr res"
    and "status res = Some (str ''missing_requirements'')"
    and "prepareEmailAddressVerification su (str ''email_code'') = Inr res'"
  shows "SignupEmailUsernamePassword_onSignup c w data
           = w\<lparr>calls := calls w @ [Call_create (email data) (password data) (username data),
                                   Call_prepareEmailAddressVerification (str ''email_code'')],
                state := VERIFY_EMAIL, error_text := None, isCreating := False\<rparr>"
  using assms by (simp add: signup_defs)

lemma onSignup_activate_rejects:
  assumes "isLoaded c" and "signUp c = Some su"
    and "create su (email data) (password data) (username data) = Inr res"
    and "status res = Some (str ''complete'')"
    and "setActive c (createdSessionId res) = Inl x"
  shows "SignupEmailUsernamePassword_onSignup c w data
           = w\<lparr>calls := calls w @ [Call_create (email data) (password data) (username data),
                                   Call_setActive (createdSessionId res)],
                state := ERROR, error_text := Some (fallback_chain x (str ''Signup failed'')),
                isCreating := False\<rparr>"
  using assms complete_neq_missing by (simp add: signup_defs or_js_fallback_chain)

lemma onSignup_activate_resolves:
  assumes "isLoaded c" and "signUp c = Some su"
    and "create su (email data) (password data) (username data) = Inr res"
    and "status res = Some (str ''complete'')"
    and "setActive c (createdSessionId res) = Inr u"
  shows "SignupEmailUsernamePassword_onSignup c w data
           = w\<lparr>calls := calls w @ [Call_create (email data) (password data) (username data),
                                   Call_setActive (createdSessionId res)],
                state := DONE, error_text := None, isCreating := False\<rparr>"
  using assms complete_neq_missing by (simp add: signup_defs)

lemma onVerification_attempt_rejects:
  assumes "isLoaded c" and "signUp c = Some su"
    and "attemptEmailAddressVerification su code = Inl x"
  shows "SignupEmailUsernamePassword_onVerification c w code
           = w\<lparr>calls := calls w @ [Call_attemptEmailAddressVerification code],
                state := ERROR,
                error_text := Some (fallback_chain x (str ''Verification failed'')),
                isVerifying := False\<rparr>"
  using assms by (simp add: verify_defs or_js_fallback_chain)

lemma onVerification_not_complete:
  assumes "isLoaded c" and "signUp c = Some su"
    and "attemptEmailAddressVerification su code = Inr res"
    and "status res \<noteq> Some (str ''complete'')"
  shows "SignupEmailUsernamePassword_onVerification c w code
           = w\<lparr>calls := calls w @ [Call_attemptEmailAddressVerification code],
                state := ERROR, error_text := Some (str ''Verification failed''),
                isVerifying := False\<rparr>"
  using assms by (simp add: verify_defs)

lemma onVerification_activate_rejects:
  assumes "isLoaded c" and "signUp c = Some su"
    and "attemptEmailAddressVerification su code = Inr res"
    and "status res = Some (str ''complete'')"
    and "setActive c (createdSessionId res) = Inl x"
  shows "SignupEmailUsernamePassword_onVerification c w code
           = w\<lparr>calls := calls w @ [Call_attemptEmailAddressVerification code,
                                   Call_setActive (createdSessionId res)],
                state := ERROR,
                error_text := Some (fallback_chain x (str ''Verification failed'')),
                isVerifying := False\<rparr>"
  using assms by (simp add: verify_defs or_js_fallback_chain)

lemma onVerification_activate_resolves:
  assumes "isLoaded c" and "signUp c = Some su"
    and "attemptEmailAddressVerification su code = Inr res"
    and "status res = Some (str ''complete'')"
    and "setActive c (createdSessionId res) = Inr u"
  shows "SignupEmailUsernamePassword_onVerification c w code
           = w\<lparr>calls := calls w @ [Call_attemptEmailAddressVerification code,
                                   Call_setActive (createdSessionId res)],
                state := DONE, error_text := None, isVerifying := False\<rparr>"
  using assms by (simp add: verify_defs)


text \<open>
  C8. When the collaborator is loaded and \<open>create\<close> resolves with a status that is neither
  \<open>complete\<close> nor \<open>missing_requirements\<close>, \<open>signup\<close> makes no further call and returns
  the failure result with the message \<open>Unexpected signup status\<close>, and the component
  enters \<open>ERROR\<close> showing that message. Likewise \<open>verify\<close>, when the attempt resolves with
  a status other than \<open>complete\<close>, returns the failure result with the message
  \<open>Verification failed\<close>.
\<close>

theorem unexpected_status_is_failure:
  assumes "isLoaded c" and "signUp c = Some su"
  shows "(create su (email data) (password data) (username data) = Inr res
          \<and> status res \<noteq> Some (str ''complete'')
          \<and> status res \<noteq> Some (str ''missing_requirements'')
          \<longrightarrow> useClerkSignupWithEmail_signup c w data
                = (w\<lparr>calls := calls w
                       @ [Call_create (email data) (password data) (username data)],
                     isCreating := False\<rparr>,
                   \<lparr>success = False, requiresVerification = None,
                    error = Some (str ''Unexpected signup status'')\<rparr>)
              \<and> state (SignupEmailUsernamePassword_onSignup c w data) = ERROR
              \<and> error_text (SignupEmailUsernamePassword_onSignup c w data)
                  = Some (str ''Unexpected signup status''))
       \<and> (attemptEmailAddressVerification su code = Inr res
          \<and> status res \<noteq> Some (str ''complete'')
          \<longrightarrow> useClerkSignupWithEmail_verify c w code
                = (w\<lparr>calls := calls w @ [Call_attemptEmailAddressVerification code],
                     isVerifying := False\<rparr>,
                   \<lparr>success = False, requiresVerification = None,
                    error = Some (str ''Verification failed'')\<rparr>)
              \<and> state (SignupEmailUsernamePassword_onVerification c w code) = ERROR
              \<and> error_text (SignupEmailUsernamePassword_onVerification c w code)
                  = Some (str ''Verification failed''))"
  using assms
  by (simp add: signup_defs SignupEmailUsernamePassword_onVerification_def
      onVerification_result_def useClerkSignupWithEmail_verify_def verify_enter_def
      verify_leave_def verify_try_def)

theorem unexpected_status_is_failure_witness:
  "state (SignupEmailUsernamePassword_onSignup
           (clerk_with (Inr (resource ''abandoned'')) (Inl rejection)
              (Inr (resource ''abandoned'')) (Inr ()))
           SignupEmailUsernamePassword_mount sample_input) = ERROR
   \<and> error_text (SignupEmailUsernamePassword_onSignup
           (clerk_with (Inr (resource ''abandoned'')) (Inl rejection)
              (Inr (resource ''abandoned'')) (Inr ()))
           SignupEmailUsernamePassword_mount sample_input)
       = Some (str ''Unexpected signup status'')
   \<and> error_text (SignupEmailUsernamePassword_onVerification
           (clerk_with (Inr (resource ''abandoned'')) (Inl rejection)
              (Inr (resource ''abandoned'')) (Inr ()))
           SignupEmailUsernamePassword_mount (str ''123456''))
       = Some (str ''Verification failed'')"
  using unexpected_status_is_failure
    [of "clerk_with (Inr (resource ''abandoned'')) (Inl rejection)
           (Inr (resource ''abandoned'')) (Inr ())"
        "signUp_with (Inr (resource ''abandoned'')) (Inl rejection)
           (Inr (resource ''abandoned''))"
        sample_input "resource ''abandoned''" SignupEmailUsernamePassword_mount
        "str ''123456''"]
  by (simp add: clerk_with_def signUp_with_def resource_def str_def)

text \<open>
  C1, as the code has it. In the signup with email, with the collaborator loaded and
  \<open>create\<close> resolved: on \<open>missing_requirements\<close> the prepare-verification call is made,
  and the state becomes \<open>VERIFY_EMAIL\<close> if that call resolves and \<open>ERROR\<close> if it
  rejects; on \<open>complete\<close> the activate-session call is made, and the state becomes
  \<open>DONE\<close> if that call resolves and \<open>ERROR\<close> if it rejects. This holds for every input
  and from every state of the component.
\<close>

theorem signup_transitions:
  assumes "isLoaded c" and "signUp c = Some su"
    and "create su (email data) (password data) (username data) = Inr res"
  shows "(status res = Some (str ''missing_requirements'')
          \<and> prepareEmailAddressVerification su (str ''email_code'') = Inr res'
          \<longrightarrow> SignupEmailUsernamePassword_onSignup c w data
              = w\<lparr>calls := calls w @ [Call_create (email data) (password data) (username data),
                                      Call_prepareEmailAddressVerification (str ''email_code'')],
                   state := VERIFY_EMAIL, error_text := None, isCreating := False\<rparr>)
       \<and> (status res = Some (str ''complete'')
          \<and> setActive c (createdSessionId res) = Inr u
          \<longrightarrow> SignupEmailUsernamePassword_onSignup c w data
              = w\<lparr>calls := calls w @ [Call_create (email data) (password data) (username data),
                                      Call_setActive (createdSessionId res)],
                   state := DONE, error_text := None, isCreating := False\<rparr>)
       \<and> (status res = Some (str ''missing_requirements'')
          \<and> prepareEmailAddressVerification su (str ''email_code'') = Inl x
          \<longrightarrow> state (SignupEmailUsernamePassword_onSignup c w data) = ERROR
              \<and> calls (SignupEmailUsernamePassword_onSignup c w data)
                  = calls w @ [Call_create (email data) (password data) (username data),
                               Call_prepareEmailAddressVerification (str ''email_code'')])
       \<and> (status res = Some (str ''complete'')
          \<and> setActive c (createdSessionId res) = Inl x
          \<longrightarrow> state (SignupEmailUsernamePassword_onSignup c w data) = ERROR
              \<and> calls (SignupEmailUsernamePassword_onSignup c w data)
                  = calls w @ [Call_create (email data) (password data) (username data),
                               Call_setActive (createdSessionId res)])"
  using assms
  by (simp add: onSignup_prepare_resolves onSignup_activate_resolves onSignup_prepare_rejects
      onSignup_activate_rejects)

theorem signup_transitions_witness:
  "SignupEmailUsernamePassword_onSignup slow_clerk SignupEmailUsernamePassword_mount sample_input
     = SignupEmailUsernamePassword_mount
         \<lparr>calls := [Call_create (str ''test@example.com'') (str ''Abcdef1!x'')
                      (str ''testingUser''),
                    Call_prepareEmailAddressVerification (str ''email_code'')],
          state := VERIFY_EMAIL\<rparr>
   \<and> SignupEmailUsernamePassword_onSignup
       (clerk_with (Inr (resource ''complete'')) (Inl rejection) (Inl rejection) (Inr ()))
       SignupEmailUsernamePassword_mount sample_input
     = SignupEmailUsernamePassword_mount
         \<lparr>calls := [Call_create (str ''test@example.com'') (str ''Abcdef1!x'')
                      (str ''testingUser''),
                    Call_setActive (Some (str ''sess_1''))],
          state := DONE\<rparr>
   \<and> state (SignupEmailUsernamePassword_onSignup
        (clerk_with (Inr (resource ''missing_requirements'')) (Inl rejection) (Inl rejection)
           (Inr ()))
        SignupEmailUsernamePassword_mount sample_input) = ERROR
   \<and> state (SignupEmailUsernamePassword_onSignup
        (clerk_with (Inr (resource ''complete'')) (Inl rejection) (Inl rejection)
           (Inl rejection))
        SignupEmailUsernamePassword_mount sample_input) = ERROR"
  using signup_transitions
    [of slow_clerk
        "signUp_with (Inr (resource ''missing_requirements''))
           (Inr (resource ''missing_requirements'')) (Inr (resource ''complete''))"
        sample_input "resource ''missing_requirements''" "resource ''missing_requirements''"
        SignupEmailUsernamePassword_mount "()" rejection]
    signup_transitions
    [of "clerk_with (Inr (resource ''complete'')) (Inl rejection) (Inl rejection) (Inr ())"
        "signUp_with (Inr (resource ''complete'')) (Inl rejection) (Inl rejection)"
        sample_input "resource ''complete''" "resource ''complete''"
        SignupEmailUsernamePassword_mount "()" rejection]
    signup_transitions
    [of "clerk_with (Inr (resource ''missing_requirements'')) (Inl rejection) (Inl rejection)
           (Inr ())"
        "signUp_with (Inr (resource ''missing_requirements'')) (Inl rejection) (Inl rejection)"
        sample_input "resource ''missing_requirements''" "resource ''complete''"
        SignupEmailUsernamePassword_mount "()" rejection]
    signup_transitions
    [of "clerk_with (Inr (resource ''complete'')) (Inl rejection) (Inl rejection)
           (Inl rejection)"
        "signUp_with (Inr (resource ''complete'')) (Inl rejection) (Inl rejection)"
        sample_input "resource ''complete''" "resource ''complete''"
        SignupEmailUsernamePassword_mount "()" rejection]
  by (simp add: slow_clerk_def clerk_with_def signUp_with_def resource_def sample_input_def
      SignupEmailUsernamePassword_mount_def str_def)

theorem signup_transitions_counterexample:
  "success_zod (formSchemaWithEmail contains_at) sample_input
   \<and> state SignupEmailUsernamePassword_mount = READY
   \<and> state (SignupEmailUsernamePassword_onSignup
        (clerk_with (Inr (resource ''missing_requirements'')) (Inl rejection) (Inl rejection)
           (Inr ()))
        SignupEmailUsernamePassword_mount sample_input) = ERROR
   \<and> state (SignupEmailUsernamePassword_onSignup
        (clerk_with (Inr (resource ''complete'')) (Inl rejection) (Inl rejection)
           (Inl rejection))
        SignupEmailUsernamePassword_mount sample_input) = ERROR
   \<and> Signup_onSignup
        (clerk_with (Inr (resource ''complete'')) (Inr (resource ''complete''))
           (Inl rejection) (Inr ()))
        Signup_mount sample_FormSchema
      = \<lparr>calls = [Call_create Signup_email (str ''Abcdef1!x'') (str ''testingUser''),
                  Call_prepareEmailAddressVerification (str ''email_code'')],
         state = VERIFY_EMAIL, err = Undefined, hook_state = verify_status\<rparr>"
  apply (intro conjI)
  subgoal
    by (simp add: success_zod_def formSchemaWithEmail_def refine_def at_key_def z_email_def
        z_min_def z_string_def z_boolean_def passwordSchema_Nil contains_at_def
        sample_input_def class_defs)
  subgoal by (simp add: run_defs)
  subgoal
    by (simp add: signup_defs run_defs or_js_def truthy_def first_longMessage_def str_def)
  subgoal
    by (simp add: signup_defs run_defs or_js_def truthy_def first_longMessage_def str_def)
  subgoal by (simp add: Signup_defs run_defs)
  done

text \<open>
  C3, as the code has it. While the collaborator is not loaded (or \<open>signUp\<close> is absent),
  \<open>signup\<close> and \<open>verify\<close> of \<open>useClerkSignupWithEmail\<close> make no call, change nothing and
  return the failure result with the message \<open>Clerk not loaded\<close>. While \<open>isLoaded\<close> is
  false, \<open>signup\<close> and \<open>verify\<close> of \<open>useClerkSignup\<close> make no call and change nothing
  either, but return nothing.
\<close>

theorem not_loaded_results:
  "(\<not> isLoaded c \<or> signUp c = None \<longrightarrow>
      useClerkSignupWithEmail_signup c w data
        = (w, \<lparr>success = False, requiresVerification = None,
               error = Some (str ''Clerk not loaded'')\<rparr>)
      \<and> useClerkSignupWithEmail_verify c w code
        = (w, \<lparr>success = False, requiresVerification = None,
               error = Some (str ''Clerk not loaded'')\<rparr>))
   \<and> (\<not> isLoaded c \<longrightarrow>
      useClerkSignup_signup c v data' email' = (v, Undefined)
      \<and> useClerkSignup_verify c v code = (v, Undefined))"
  by (simp add: signup_not_loaded verify_not_loaded useClerkSignup_signup_def
      useClerkSignup_verify_def)

theorem not_loaded_results_witness:
  "useClerkSignupWithEmail_signup clerk_not_loaded SignupEmailUsernamePassword_mount sample_input
     = (SignupEmailUsernamePassword_mount,
        \<lparr>success = False, requiresVerification = None,
         error = Some (str ''Clerk not loaded'')\<rparr>)
   \<and> useClerkSignupWithEmail_verify clerk_not_loaded SignupEmailUsernamePassword_mount
       (str ''123456'')
     = (SignupEmailUsernamePassword_mount,
        \<lparr>success = False, requiresVerification = None,
         error = Some (str ''Clerk not loaded'')\<rparr>)
   \<and> calls SignupEmailUsernamePassword_mount = []
   \<and> useClerkSignup_signup clerk_not_loaded Signup_mount sample_FormSchema Signup_email
     = (Signup_mount, Undefined)"
  using not_loaded_results
    [of clerk_not_loaded SignupEmailUsernamePassword_mount sample_input "str ''123456''"
        Signup_mount sample_FormSchema Signup_email]
  by (simp add: clerk_not_loaded_def SignupEmailUsernamePassword_mount_def)

theorem not_loaded_results_counterexample:
  "\<not> isLoaded clerk_not_loaded
   \<and> useClerkSignup_signup clerk_not_loaded Signup_mount sample_FormSchema Signup_email
       = (Signup_mount, Undefined)
   \<and> useClerkSignup_verify clerk_not_loaded Signup_mount (str ''123456'')
       = (Signup_mount, Undefined)"
  by (simp add: Signup_defs clerk_not_loaded_def)

text \<open>
  C7, as the code has it. In the signup with email, the component goes to \<open>DONE\<close>, having
  made the attempt-verification and the activate-session call, when the collaborator is
  loaded, the attempt resolves with status \<open>complete\<close> and the activate-session call
  resolves; in every other case (not loaded, a rejected call, another status) it goes to
  \<open>ERROR\<close> with an error text that is not empty.
\<close>

theorem verification_transitions:
  "(isLoaded c \<and> signUp c = Some su \<and> attemptEmailAddressVerification su code = Inr res
      \<and> status res = Some (str ''complete'') \<and> setActive c (createdSessionId res) = Inr u
    \<longrightarrow> SignupEmailUsernamePassword_onVerification c w code
         = w\<lparr>calls := calls w @ [Call_attemptEmailAddressVerification code,
                                 Call_setActive (createdSessionId res)],
              state := DONE, error_text := None, isVerifying := False\<rparr>)
   \<and> (\<not> (\<exists>su res u. isLoaded c \<and> signUp c = Some su
            \<and> attemptEmailAddressVerification su code = Inr res
            \<and> status res = Some (str ''complete'')
            \<and> setActive c (createdSessionId res) = Inr u)
    \<longrightarrow> state (SignupEmailUsernamePassword_onVerification c w code) = ERROR
        \<and> (\<exists>m. error_text (SignupEmailUsernamePassword_onVerification c w code) = Some m
                \<and> m \<noteq> []))"
proof (intro conjI impI)
  assume "isLoaded c \<and> signUp c = Some su \<and> attemptEmailAddressVerification su code = Inr res
      \<and> status res = Some (str ''complete'') \<and> setActive c (createdSessionId res) = Inr u"
  then show "SignupEmailUsernamePassword_onVerification c w code
         = w\<lparr>calls := calls w @ [Call_attemptEmailAddressVerification code,
                                 Call_setActive (createdSessionId res)],
              state := DONE, error_text := None, isVerifying := False\<rparr>"
    by (simp add: onVerification_activate_resolves)
next
  let ?w = "SignupEmailUsernamePassword_onVerification c w code"
  assume no: "\<not> (\<exists>su res u. isLoaded c \<and> signUp c = Some su
            \<and> attemptEmailAddressVerification su code = Inr res
            \<and> status res = Some (str ''complete'')
            \<and> setActive c (createdSessionId res) = Inr u)"
  have "state ?w = ERROR \<and> (\<exists>m. error_text ?w = Some m \<and> m \<noteq> [])"
  proof (cases "isLoaded c \<and> signUp c \<noteq> None")
    case False
    then show ?thesis
      by (simp add: onVerification_not_loaded fixed_nonempty)
  next
    case True
    then obtain su' where su': "isLoaded c" "signUp c = Some su'" by auto
    show ?thesis
    proof (cases "attemptEmailAddressVerification su' code")
      case (Inl x)
      with su' show ?thesis
        by (simp add: onVerification_attempt_rejects fallback_chain_nonempty fixed_nonempty)
    next
      case (Inr r)
      show ?thesis
      proof (cases "status r = Some (str ''complete'')")
        case False
        with su' Inr show ?thesis
          by (simp add: onVerification_not_complete fixed_nonempty)
      next
        case True
        with no su' Inr obtain x where "setActive c (createdSessionId r) = Inl x"
          by (cases "setActive c (createdSessionId r)") auto
        with su' Inr True show ?thesis
          by (simp add: onVerification_activate_rejects fallback_chain_nonempty
              fixed_nonempty)
      qed
    qed
  qed
  then show "state ?w = ERROR" and "\<exists>m. error_text ?w = Some m \<and> m \<noteq> []" by simp_all
qed

theorem verification_transitions_witness:
  "SignupEmailUsernamePassword_onVerification slow_clerk
       (SignupEmailUsernamePassword_mount\<lparr>state := VERIFY_EMAIL\<rparr>) (str ''123456'')
     = SignupEmailUsernamePassword_mount
         \<lparr>calls := [Call_attemptEmailAddressVerification (str ''123456''),
                    Call_setActive (Some (str ''sess_1''))],
          state := DONE\<rparr>
   \<and> state (SignupEmailUsernamePassword_onVerification clerk_not_loaded
        (SignupEmailUsernamePassword_mount\<lparr>state := VERIFY_EMAIL\<rparr>) (str ''123456'')) = ERROR"
  using verification_transitions
    [of slow_clerk
        "signUp_with (Inr (resource ''missing_requirements''))
           (Inr (resource ''missing_requirements'')) (Inr (resource ''complete''))"
        "str ''123456''" "resource ''complete''" "()"
        "SignupEmailUsernamePassword_mount\<lparr>state := VERIFY_EMAIL\<rparr>"]
    verification_transitions
    [of clerk_not_loaded _ "str ''123456''" _ _
        "SignupEmailUsernamePassword_mount\<lparr>state := VERIFY_EMAIL\<rparr>"]
  by (simp add: slow_clerk_def clerk_with_def signUp_with_def resource_def
      clerk_not_loaded_def SignupEmailUsernamePassword_mount_def str_def)

theorem verification_transitions_counterexample:
  "success_zod verificationSchema (str ''123456'')
   \<and> SignupEmailUsernamePassword_onVerification
       (clerk_with (Inl rejection) (Inl rejection) (Inr (resource ''complete'')) (Inl rejection))
       (SignupEmailUsernamePassword_mount\<lparr>state := VERIFY_EMAIL\<rparr>) (str ''123456'')
     = SignupEmailUsernamePassword_mount
         \<lparr>calls := [Call_attemptEmailAddressVerification (str ''123456''),
                    Call_setActive (Some (str ''sess_1''))],
          state := ERROR, error_text := Some (str ''That email address is taken.'')\<rparr>
   \<and> Signup_onVerification
       (clerk_with (Inl rejection) (Inl rejection) (Inl rejection) (Inr ()))
       (Signup_mount\<lparr>state := VERIFY_EMAIL\<rparr>) (str ''123456'')
     = Signup_mount
         \<lparr>calls := [Call_attemptEmailAddressVerification (str ''123456'')],
          state := ERROR, hook_state := error_status\<rparr>
   \<and> err Signup_mount = Undefined
   \<and> Signup_onVerification
       (clerk_with (Inl rejection) (Inl rejection) (Inr (resource ''complete'')) (Inr ()))
       (Signup_mount\<lparr>state := VERIFY_EMAIL\<rparr>) (str ''123456'')
     = Signup_mount
         \<lparr>calls := [Call_attemptEmailAddressVerification (str ''123456'')], state := DONE\<rparr>"
  apply (intro conjI)
  subgoal by (simp add: success_zod_def verificationSchema_def at_key_def z_length_def str_def)
  subgoal
    by (simp add: verify_defs run_defs or_js_def truthy_def
        first_longMessage_def str_def)
  subgoal by (simp add: Signup_defs run_defs)
  subgoal by (simp add: run_defs)
  subgoal by (simp add: Signup_defs run_defs)
  done

text \<open>
  C9, as the code has it. In the signup with email, with the collaborator loaded, a
  rejected call (\<open>create\<close>, the prepare-verification or the activate-session call in
  \<open>signup\<close>; the attempt-verification or the activate-session call in \<open>verify\<close>) puts
  the component in \<open>ERROR\<close> with the message of the fallback chain: the long message of
  the first structured error if present, otherwise the message of the thrown value if
  present, otherwise \<open>Signup failed\<close>, respectively \<open>Verification failed\<close>.
\<close>

theorem rejection_message:
  assumes "isLoaded c" and "signUp c = Some su"
  shows "(create su (email data) (password data) (username data) = Inl x
          \<or> (\<exists>res. create su (email data) (password data) (username data) = Inr res
                \<and> status res = Some (str ''missing_requirements'')
                \<and> prepareEmailAddressVerification su (str ''email_code'') = Inl x)
          \<or> (\<exists>res. create su (email data) (password data) (username data) = Inr res
                \<and> status res = Some (str ''complete'')
                \<and> setActive c (createdSessionId res) = Inl x)
          \<longrightarrow> state (SignupEmailUsernamePassword_onSignup c w data) = ERROR
              \<and> error_text (SignupEmailUsernamePassword_onSignup c w data)
                  = Some (fallback_chain x (str ''Signup failed'')))
       \<and> (attemptEmailAddressVerification su code = Inl x
          \<or> (\<exists>res. attemptEmailAddressVerification su code = Inr res
                \<and> status res = Some (str ''complete'')
                \<and> setActive c (createdSessionId res) = Inl x)
          \<longrightarrow> state (SignupEmailUsernamePassword_onVerification c w code) = ERROR
              \<and> error_text (SignupEmailUsernamePassword_onVerification c w code)
                  = Some (fallback_chain x (str ''Verification failed'')))"
  using assms
  by (auto simp: onSignup_create_rejects onSignup_prepare_rejects onSignup_activate_rejects
      onVerification_attempt_rejects onVerification_activate_rejects)

theorem rejection_message_witness:
  "error_text (SignupEmailUsernamePassword_onSignup
       (clerk_with (Inl rejection) (Inl rejection) (Inl rejection) (Inr ()))
       SignupEmailUsernamePassword_mount sample_input)
     = Some (str ''That email address is taken.'')
   \<and> error_text (SignupEmailUsernamePassword_onVerification
       (clerk_with (Inl rejection) (Inl rejection) (Inl rejection) (Inr ()))
       SignupEmailUsernamePassword_mount (str ''123456''))
     = Some (str ''That email address is taken.'')
   \<and> fallback_chain \<lparr>errors = Some [ClerkAPIError (Some [])],
                      message = Some (str ''Network error'')\<rparr> (str ''Signup failed'')
     = str ''Network error''
   \<and> fallback_chain \<lparr>errors = None, message = None\<rparr> (str ''Signup failed'')
     = str ''Signup failed''"
  using rejection_message
    [of "clerk_with (Inl rejection) (Inl rejection) (Inl rejection) (Inr ())"
        "signUp_with (Inl rejection) (Inl rejection) (Inl rejection)"
        sample_input rejection SignupEmailUsernamePassword_mount "str ''123456''"]
  by (simp add: clerk_with_def signUp_with_def rejection_def fallback_chain_def
      first_longMessage_def str_def)

theorem rejection_message_counterexample:
  "first_longMessage rejection = Some (str ''That email address is taken.'')
   \<and> message rejection = Some (str ''Unprocessable Entity'')
   \<and> Signup_onSignup
       (clerk_with (Inl rejection) (Inl rejection) (Inl rejection) (Inr ()))
       Signup_mount sample_FormSchema
     = \<lparr>calls = [Call_create Signup_email (str ''Abcdef1!x'') (str ''testingUser'')],
        state = ERROR, err = Undefined, hook_state = error_status\<rparr>
   \<and> Signup_render
       \<lparr>calls = [Call_create Signup_email (str ''Abcdef1!x'') (str ''testingUser'')],
        state = ERROR, err = Undefined, hook_state = error_status\<rparr>
     = ErrorView Undefined"
  apply (intro conjI)
  subgoal by (simp add: first_longMessage_def rejection_def)
  subgoal by (simp add: rejection_def)
  subgoal by (simp add: Signup_defs run_defs)
  subgoal by (simp add: Signup_render_def)
  done

section \<open>No re-entrant calls\<close>


lemma signup_enter_Inl:
  "signup_enter c w = Inl r \<Longrightarrow> r = (w, failure (Some (str ''Clerk not loaded'')))"
  by (auto simp: signup_enter_def split: option.splits if_splits)


lemma verify_enter_Inl:
  "verify_enter c w = Inl r \<Longrightarrow> r = (w, failure (Some (str ''Clerk not loaded'')))"
  by (auto simp: verify_enter_def split: option.splits if_splits)



lemma onSignup_result_flags:
  "isCreating (onSignup_result awaited) = isCreating (fst awaited)"
  "isVerifying (onSignup_result awaited) = isVerifying (fst awaited)"
  by (cases awaited; simp add: onSignup_result_def)+

lemma onVerification_result_flags:
  "isCreating (onVerification_result awaited) = isCreating (fst awaited)"
  "isVerifying (onVerification_result awaited) = isVerifying (fst awaited)"
  by (cases awaited; simp add: onVerification_result_def)+





























end
